theory Spec2Isabelle
  imports Main "HOL-Library.Word" "HOL-Library.Char_ord"
begin

section \<open>W3C trace-context propagation: the code of the repository\<close>

text \<open>
  The development embeds two source files:
  \<^item> the trace-state source file (constants \<open>KEY_MAX_SIZE\<close>, \<open>validateValue\<close>, \<open>validateKey\<close>,
    the \<open>Builder\<close> with \<open>set\<close>, \<open>remove\<close>, \<open>build\<close>);
  \<^item> \<open>http_trace_context.h\<close> (\<open>Inject\<close>, \<open>Extract\<close> and their private helpers).
  Every way in which a call can fail to return a value is a constructor of \<open>fault\<close>.
\<close>

subsection \<open>Faults and string views\<close>

datatype fault =
  Terminate             \<comment> \<open>a bare \<open>throw;\<close> with no exception being handled: \<open>std::terminate\<close>\<close>
  | OutOfRange          \<comment> \<open>\<open>std::out_of_range\<close>, thrown by \<open>string_view::substr\<close>\<close>
  | InvalidArgument     \<comment> \<open>\<open>std::invalid_argument\<close>, thrown by \<open>ExtractTraceState\<close>\<close>
  | BadVariantAccess    \<comment> \<open>\<open>nostd::get\<close> on a variant that holds another alternative\<close>
  | UndefinedRead       \<comment> \<open>a read outside the characters of a view or a literal\<close>

text \<open>\<open>catch (std::exception& e)\<close> handles the three exception classes and nothing else.\<close>

fun is_std_exception :: "fault \<Rightarrow> bool" where
  "is_std_exception OutOfRange = True"
| "is_std_exception InvalidArgument = True"
| "is_std_exception BadVariantAccess = True"
| "is_std_exception Terminate = False"
| "is_std_exception UndefinedRead = False"

type_synonym size_t = "64 word"

text \<open>
  \<open>view[i]\<close>: the index is a \<open>size_t\<close>; an index that is not below the length reads outside
  the view.
\<close>

definition at :: "string \<Rightarrow> size_t \<Rightarrow> fault + char" where
  "at s i = (if unat i < length s then Inr (s ! unat i) else Inl UndefinedRead)"

text \<open>
  \<open>view.substr(pos, n)\<close>: the \<open>int\<close> arguments convert to \<open>size_t\<close>, so a negative one
  is far beyond the length; \<open>pos > length\<close> throws \<open>std::out_of_range\<close>, otherwise the
  result is the at most \<open>n\<close> characters from \<open>pos\<close> on.
\<close>

definition substr :: "string \<Rightarrow> int \<Rightarrow> int \<Rightarrow> fault + string" where
  "substr s pos n =
     (if pos < 0 \<or> int (length s) < pos then Inl OutOfRange
      else Inr (take (if n < 0 then length s else nat n) (drop (nat pos) s)))"

text \<open>
  A \<open>nostd::string_view\<close> is a pointer into a character array and a length. The model
  keeps its characters (\<open>chars\<close>, the \<open>length\<close> characters from the pointer on) and what
  can be read from the pointer on (\<open>readable\<close>): \<open>chars\<close> is a prefix of \<open>readable\<close>. A view
  of a \<open>std::string\<close> can read the characters of the string and its terminating NUL; a
  default-constructed view holds the null pointer; \<open>substr\<close> moves the pointer by \<open>pos\<close>
  inside the same array. Where a function reads a view only below its length (the
  tracestate parser, the validators), the view is modelled by its characters alone.
\<close>

record string_view =
  chars :: string
  readable :: string

definition view_of_string :: "string \<Rightarrow> string_view" where
  "view_of_string s = \<lparr>chars = s, readable = s @ [CHR 0x00]\<rparr>"

definition empty_view :: string_view where
  "empty_view = \<lparr>chars = [], readable = []\<rparr>"

definition view_substr :: "string_view \<Rightarrow> int \<Rightarrow> int \<Rightarrow> fault + string_view" where
  "view_substr v pos n =
     (case substr (chars v) pos n of
        Inl e \<Rightarrow> Inl e
      | Inr cs \<Rightarrow> Inr \<lparr>chars = cs, readable = drop (nat pos) (readable v)\<rparr>)"

subsection \<open>Trace state: validation and the builder\<close>

definition KEY_MAX_SIZE :: nat where "KEY_MAX_SIZE = 256"
definition VALUE_MAX_SIZE :: nat where "VALUE_MAX_SIZE = 256"
definition MAX_KEY_VALUE_PAIRS :: nat where "MAX_KEY_VALUE_PAIRS = 32"

text \<open>
  The \<open>for\<close> loop of \<open>validateValue\<close>, over the characters in index order. Characters
  are compared by their codes 0 to 255; a character of code 128 or more fails the test
  under either signedness of \<open>char\<close> (as greater than \<open>~\<close>, or as less than the space).
\<close>

fun validateValue_loop :: "string \<Rightarrow> bool" where
  "validateValue_loop [] = True"
| "validateValue_loop (c # cs) =
     (if c = CHR '','' \<or> c = CHR ''='' \<or> c < CHR '' '' \<or> c > CHR ''~'' then False
      else validateValue_loop cs)"

text \<open>
  \<open>validateValue\<close>: the first test is
  \<open>value.length() > VALUE_MAX_SIZE || value[value.length() - 1] == ' '\<close>; the index
  \<open>value.length() - 1\<close> is computed in \<open>size_t\<close> and wraps for the empty value.
\<close>

definition validateValue :: "string \<Rightarrow> fault + bool" where
  "validateValue value =
     (if VALUE_MAX_SIZE < length value then Inr False
      else (case at value (word_of_nat (length value) - 1) of
              Inl e \<Rightarrow> Inl e
            | Inr c \<Rightarrow> if c = CHR '' '' then Inr False else Inr (validateValue_loop value)))"

definition isNumberOrDigit :: "char \<Rightarrow> bool" where
  "isNumberOrDigit ch =
     ((CHR ''a'' \<le> ch \<and> ch \<le> CHR ''z'') \<or> (CHR ''0'' \<le> ch \<and> ch \<le> CHR ''9''))"

text \<open>The loop of \<open>validateKey\<close> from index 1 on, with the counter \<open>atSeenCount\<close>.\<close>

fun validateKey_loop :: "string \<Rightarrow> nat \<Rightarrow> bool" where
  "validateKey_loop [] atSeenCount = True"
| "validateKey_loop (c # cs) atSeenCount =
     (if \<not> isNumberOrDigit c \<and> c \<noteq> CHR ''_'' \<and> c \<noteq> CHR ''-'' \<and> c \<noteq> CHR ''@''
          \<and> c \<noteq> CHR ''*'' \<and> c \<noteq> CHR ''/'' then False
      else if c = CHR ''@'' then
        (if 1 < atSeenCount + 1 then False else validateKey_loop cs (atSeenCount + 1))
      else validateKey_loop cs atSeenCount)"

definition validateKey :: "string \<Rightarrow> bool" where
  "validateKey key =
     (case key of
        [] \<Rightarrow> False
      | c # cs \<Rightarrow>
          if KEY_MAX_SIZE < length key then False
          else if isNumberOrDigit c then validateKey_loop cs 0 else False)"

text \<open>
  An \<open>Entry\<close> is the pair that \<open>Entry.create(key, value)\<close> stores; \<open>create\<close> only calls the
  constructor of the value class. A \<open>TraceState\<close> is the list \<open>getEntries()\<close> returns.
\<close>

type_synonym Entry = "string \<times> string"
type_synonym TraceState = "Entry list"

definition Entry_create :: "string \<Rightarrow> string \<Rightarrow> Entry" where
  "Entry_create key value = (key, value)"

definition getKey :: "Entry \<Rightarrow> string" where
  "getKey e = fst e"

definition getValue :: "Entry \<Rightarrow> string" where
  "getValue e = snd e"

text \<open>The builder: its parent and the staged list, \<open>None\<close> for the source's \<open>null\<close>.\<close>

record Builder =
  parent :: TraceState
  entries :: "Entry list option"

definition EMPTY :: TraceState where
  "EMPTY = []"

definition builder :: Builder where
  "builder = \<lparr>parent = EMPTY, entries = None\<rparr>"

text \<open>
  The loop shared by \<open>set\<close> and \<open>remove\<close>: the first entry with the key is removed and the
  loop exits (\<open>break\<close>).
\<close>

fun remove_first :: "string \<Rightarrow> Entry list \<Rightarrow> Entry list" where
  "remove_first key [] = []"
| "remove_first key (e # es) = (if getKey e = key then es else e # remove_first key es)"

definition staged :: "Builder \<Rightarrow> Entry list" where
  "staged b = (case entries b of None \<Rightarrow> parent b | Some es \<Rightarrow> es)"

definition Builder_set :: "Builder \<Rightarrow> string \<Rightarrow> string \<Rightarrow> Builder" where
  "Builder_set b key value =
     (let entry = Entry_create key value
      in b\<lparr>entries := Some (entry # remove_first (getKey entry) (staged b))\<rparr>)"

definition Builder_remove :: "Builder \<Rightarrow> string \<Rightarrow> Builder" where
  "Builder_remove b key = b\<lparr>entries := Some (remove_first key (staged b))\<rparr>"

definition build :: "Builder \<Rightarrow> TraceState" where
  "build b = (case entries b of None \<Rightarrow> parent b | Some es \<Rightarrow> es)"

text \<open>
  Modelled from the spec: \<open>TraceState::Set\<close>, which \<open>AddNewMember\<close> calls on a
  \<open>TraceState\<close>, is declared in no file of the repository; the spec (design notes) says the
  parser reuses the front-inserting \<open>Set\<close> per token, so the model runs the builder's \<open>set\<close>
  on the entries and takes what \<open>build\<close> returns.
\<close>

definition TraceState_Set :: "TraceState \<Rightarrow> string \<Rightarrow> string \<Rightarrow> TraceState" where
  "TraceState_Set ts key value = build (Builder_set \<lparr>parent = ts, entries = None\<rparr> key value)"

subsection \<open>Identifiers, flags, span context and context store\<close>

type_synonym u8 = "8 word"

text \<open>
  Modelled from the spec: \<open>TraceId\<close>, \<open>SpanId\<close>, \<open>TraceFlags\<close> and \<open>SpanContext\<close>
  (\<open>span_context.h\<close> and the identifier headers are not among the source files). A trace
  id is 16 raw bytes, a span id 8 raw bytes, the flags one byte; an id is valid iff it is
  not all-zero; \<open>IsValid()\<close> of a span context is the validity of both ids; bit 0 of the
  flags is the sampling decision. The default-constructed \<open>SpanContext()\<close> is the invalid
  one the source's comments speak of: zero ids, zero flags, no entries, not remote.
\<close>

record SpanContext =
  trace_id :: "u8 list"
  span_id :: "u8 list"
  trace_flags :: u8
  trace_state :: TraceState
  is_remote :: bool

definition Id_IsValid :: "u8 list \<Rightarrow> bool" where
  "Id_IsValid bytes = list_ex (\<lambda>b. b \<noteq> 0) bytes"

definition IsValid :: "SpanContext \<Rightarrow> bool" where
  "IsValid sc = (Id_IsValid (trace_id sc) \<and> Id_IsValid (span_id sc))"

definition IsSampled :: "u8 \<Rightarrow> bool" where
  "IsSampled flags = bit flags 0"

definition SpanContext_default :: SpanContext where
  "SpanContext_default =
     \<lparr>trace_id = replicate 16 0, span_id = replicate 8 0, trace_flags = 0,
      trace_state = [], is_remote = False\<rparr>"

text \<open>
  Modelled from the spec: the context store (\<open>context.h\<close> is not among the source files),
  a persistent mapping from string keys to tagged values: \<open>GetValue\<close> returns the value of
  a key if there is one, \<open>SetValue\<close> derives a new context and leaves the receiver as it was.
\<close>

datatype ContextValue = SpanContextPtr SpanContext | OtherValue string

type_synonym Context = "string \<rightharpoonup> ContextValue"

definition GetValue :: "Context \<Rightarrow> string \<Rightarrow> ContextValue option" where
  "GetValue context key = context key"

definition SetValue :: "Context \<Rightarrow> string \<Rightarrow> ContextValue \<Rightarrow> Context" where
  "SetValue context key v = context(key \<mapsto> v)"

subsection \<open>The carrier\<close>

text \<open>
  \<open>ExtractImpl\<close> copies the carrier into a \<open>std::map<std::string,std::string>\<close>, so the
  carrier type is that map. \<open>c[key]\<close> on the copy yields the empty string for a key the
  map does not hold. A \<open>Getter\<close> and a \<open>Setter\<close> are the caller's function pointers.
\<close>

type_synonym Carrier = "string \<rightharpoonup> string"
type_synonym Getter = "Carrier \<Rightarrow> string \<Rightarrow> string"
type_synonym Setter = "Carrier \<Rightarrow> string \<Rightarrow> string \<Rightarrow> Carrier"

definition map_index :: "Carrier \<Rightarrow> string \<Rightarrow> string" where
  "map_index c key = (case c key of None \<Rightarrow> [] | Some v \<Rightarrow> v)"

text \<open>The accessors of a header map, used where a property needs a concrete carrier.\<close>

definition map_getter :: Getter where
  "map_getter carrier trace_type = map_index carrier trace_type"

definition map_setter :: Setter where
  "map_setter carrier trace_type trace_description = carrier(trace_type \<mapsto> trace_description)"

subsection \<open>The propagator: constants\<close>

definition kTraceParent :: string where "kTraceParent = ''traceparent''"
definition kTraceState :: string where "kTraceState = ''tracestate''"
definition kVersionBytes :: nat where "kVersionBytes = 2"
definition kTraceIdBytes :: nat where "kTraceIdBytes = 32"
definition kParentIdBytes :: nat where "kParentIdBytes = 16"
definition kTraceFlagBytes :: nat where "kTraceFlagBytes = 2"
definition kTraceDelimiterBytes :: nat where "kTraceDelimiterBytes = 3"

definition kHeaderSize :: nat where
  "kHeaderSize =
     kVersionBytes + kTraceIdBytes + kParentIdBytes + kTraceFlagBytes + kTraceDelimiterBytes"

definition kTraceStateMaxMembers :: nat where "kTraceStateMaxMembers = 32"

definition kHeaderElementLengths :: "int list" where
  "kHeaderElementLengths = [2, 32, 16, 2]"

definition span_key :: string where "span_key = ''current-span''"

text \<open>
  \<open>try { body } catch (std::exception& e) { return handler; }\<close>: a fault that is a
  \<open>std::exception\<close> is replaced by the handler's value, any other fault goes on.
\<close>

definition try_catch :: "fault + 'a \<Rightarrow> 'a \<Rightarrow> fault + 'a" where
  "try_catch body handler =
     (case body of
        Inl e \<Rightarrow> if is_std_exception e then Inr handler else Inl e
      | Inr v \<Rightarrow> Inr v)"

subsection \<open>Inject\<close>

text \<open>
  \<open>"-" + trace_flags\<close> adds the integer to the address of the literal, whose array holds the
  characters and the terminating NUL: offset 0 is the literal, an offset up to its length a
  suffix of it, a larger one points outside the array.
\<close>

definition literal_plus :: "string \<Rightarrow> u8 \<Rightarrow> fault + string" where
  "literal_plus lit k = (if unat k \<le> length lit then Inr (drop (unat k) lit) else Inl UndefinedRead)"

text \<open>
  \<open>SpanContextToString\<close>: \<open>std::string(it, 1)\<close> with \<open>it\<close> a byte is the constructor
  \<open>(count, ch)\<close>, a string of \<open>it\<close> characters of code 1. The function returns a view of its
  local string; the model returns the characters that string held.
\<close>

definition SpanContextToString :: "SpanContext \<Rightarrow> fault + string" where
  "SpanContextToString span_context =
     (let hex_string = ''00-'';
          hex_string = foldl (\<lambda>h it. h @ replicate (unat it) (CHR 0x01)) hex_string
                         (trace_id span_context);
          hex_string = hex_string @ ''-'';
          hex_string = foldl (\<lambda>h it. h @ replicate (unat it) (CHR 0x01)) hex_string
                         (span_id span_context)
      in case literal_plus ''-'' (trace_flags span_context) of
           Inl e \<Rightarrow> Inl e
         | Inr tail \<Rightarrow> Inr (hex_string @ tail))"

text \<open>
  \<open>InjectImpl\<close>: one call of the setter, for \<open>traceparent\<close>; both branches of the test on the
  trace state only print (the call that wrote \<open>tracestate\<close> is commented out).
\<close>

definition InjectImpl :: "Setter \<Rightarrow> Carrier \<Rightarrow> SpanContext \<Rightarrow> fault + Carrier" where
  "InjectImpl setter carrier span_context =
     (case SpanContextToString span_context of
        Inl e \<Rightarrow> Inl e
      | Inr trace_parent \<Rightarrow> Inr (setter carrier kTraceParent trace_parent))"

text \<open>
  \<open>GetCurrentSpanContext\<close>: \<open>nostd::get\<close> of the shared pointer out of what \<open>GetValue\<close>
  returns, dereferenced with no test (the null test is commented out).
\<close>

definition GetCurrentSpanContext :: "Context \<Rightarrow> fault + SpanContext" where
  "GetCurrentSpanContext context =
     (case GetValue context span_key of
        Some (SpanContextPtr span_context) \<Rightarrow> Inr span_context
      | Some (OtherValue x) \<Rightarrow> Inl BadVariantAccess
      | None \<Rightarrow> Inl BadVariantAccess)"

definition Inject :: "Setter \<Rightarrow> Carrier \<Rightarrow> Context \<Rightarrow> fault + Carrier" where
  "Inject setter carrier context =
     (case GetCurrentSpanContext context of
        Inl e \<Rightarrow> Inl e
      | Inr span_context \<Rightarrow>
          if \<not> IsValid span_context then Inr carrier
          else InjectImpl setter carrier span_context)"

subsection \<open>Extract: the traceparent header\<close>

text \<open>The test of the scan loop for a digit of the header: \<open>a\<close> to \<open>f\<close> or \<open>0\<close> to \<open>9\<close>.\<close>

definition is_hex_char :: "char \<Rightarrow> bool" where
  "is_hex_char c = ((CHR ''a'' \<le> c \<and> c \<le> CHR ''f'') \<or> (CHR ''0'' \<le> c \<and> c \<le> CHR ''9''))"

text \<open>The local variables of the scan loop of \<open>ExtractContextFromTraceParent\<close>.\<close>

record tp_vars =
  version :: string_view
  trace_id_str :: string_view
  span_id_str :: string_view
  elt_num :: nat
  countdown :: int
  start_pos :: int

definition tp_init :: tp_vars where
  "tp_init =
     \<lparr>version = empty_view, trace_id_str = empty_view, span_id_str = empty_view,
      elt_num = 0, countdown = kHeaderElementLengths ! 0, start_pos = - 1\<rparr>"

text \<open>\<open>countdown = kHeaderElementLengths[++elt_num]; start_pos = -1;\<close>\<close>

definition next_element :: "tp_vars \<Rightarrow> tp_vars" where
  "next_element s =
     s\<lparr>elt_num := elt_num s + 1,
       countdown := kHeaderElementLengths ! (elt_num s + 1),
       start_pos := - 1\<rparr>"

text \<open>
  The scan loop: \<open>i\<close> is the index, the third argument the characters of the view from
  \<open>i\<close> on. Each
  bare \<open>throw;\<close> is \<open>Terminate\<close>: no exception is being handled where it stands.
\<close>

fun tp_loop :: "string_view \<Rightarrow> nat \<Rightarrow> string \<Rightarrow> tp_vars \<Rightarrow> fault + tp_vars" where
  "tp_loop trace_parent i [] s = Inr s"
| "tp_loop trace_parent i (c # rest) s =
     (if c = CHR 0x09 then tp_loop trace_parent (i + 1) rest s
      else if c = CHR ''-'' then
        (if countdown s = 0 then
           (if elt_num s = 0 then
              (case view_substr trace_parent (start_pos s) (kHeaderElementLengths ! elt_num s) of
                 Inl e \<Rightarrow> Inl e
               | Inr v \<Rightarrow> tp_loop trace_parent (i + 1) rest (next_element (s\<lparr>version := v\<rparr>)))
            else if elt_num s = 1 then
              (case view_substr trace_parent (start_pos s) (kHeaderElementLengths ! elt_num s) of
                 Inl e \<Rightarrow> Inl e
               | Inr v \<Rightarrow> tp_loop trace_parent (i + 1) rest (next_element (s\<lparr>trace_id_str := v\<rparr>)))
            else if elt_num s = 2 then
              (case view_substr trace_parent (start_pos s) (kHeaderElementLengths ! elt_num s) of
                 Inl e \<Rightarrow> Inl e
               | Inr v \<Rightarrow> tp_loop trace_parent (i + 1) rest (next_element (s\<lparr>span_id_str := v\<rparr>)))
            else Inl Terminate)
         else Inl Terminate)
      else if is_hex_char c then
        tp_loop trace_parent (i + 1) rest
          (s\<lparr>start_pos := (if start_pos s = - 1 then int i else start_pos s),
             countdown := countdown s - 1\<rparr>)
      else Inl Terminate)"

text \<open>
  The loops of \<open>GenerateTraceIdFromString\<close> (\<open>n = 32\<close>) and \<open>GenerateSpanIdFromString\<close>
  (\<open>n = 16\<close>): the pointer \<open>tid\<close> walks over the characters; an even \<open>i\<close> stores the
  character code times 16 in byte \<open>i/2\<close>, an odd \<open>i\<close> adds the character code to it. The
  bytes are \<open>uint8_t\<close>, so both results are cut to 8 bits. The array \<open>buf\<close> is not
  initialised in the source; every byte is stored before it is read, so the bytes it
  starts with do not reach the result.
\<close>

function GenerateId_loop :: "nat \<Rightarrow> nat \<Rightarrow> string \<Rightarrow> u8 list \<Rightarrow> fault + u8 list" where
  "GenerateId_loop n i tid buf =
     (if i < n then
        (case tid of
           [] \<Rightarrow> Inl UndefinedRead
         | c # tid' \<Rightarrow>
             GenerateId_loop n (i + 1) tid'
               (if i mod 2 = 0 then buf[i div 2 := of_char c * 16]
                else buf[i div 2 := buf ! (i div 2) + of_char c]))
      else Inr buf)"
  by pat_completeness auto
termination
  by (relation "measure (\<lambda>(n, i, tid, buf). n - i)") auto

text \<open>
  The three functions take a view and never ask for its length: the first two read 32 and
  16 characters from \<open>begin()\<close> on, the third reads indices 0 and 1. Their argument in the
  model is what can be read from the pointer of the view on.
\<close>

definition GenerateTraceIdFromString :: "string \<Rightarrow> fault + u8 list" where
  "GenerateTraceIdFromString trace_id_s = GenerateId_loop 32 0 trace_id_s (replicate 16 0)"

definition GenerateSpanIdFromString :: "string \<Rightarrow> fault + u8 list" where
  "GenerateSpanIdFromString span_id_s = GenerateId_loop 16 0 span_id_s (replicate 8 0)"

definition GenerateTraceFlagsFromString :: "string \<Rightarrow> fault + u8" where
  "GenerateTraceFlagsFromString trace_flags_s =
     (case at trace_flags_s 0 of
        Inl e \<Rightarrow> Inl e
      | Inr c0 \<Rightarrow>
          (case at trace_flags_s 1 of
             Inl e \<Rightarrow> Inl e
           | Inr c1 \<Rightarrow> Inr (of_char c0 * 16 + of_char c1)))"

text \<open>The statements of the \<open>try\<close> block of \<open>ExtractContextFromTraceParent\<close>.\<close>

definition ExtractContextFromTraceParent_try :: "string_view \<Rightarrow> fault + SpanContext" where
  "ExtractContextFromTraceParent_try trace_parent =
     (case tp_loop trace_parent 0 (chars trace_parent) tp_init of
        Inl e \<Rightarrow> Inl e
      | Inr s \<Rightarrow>
          (case view_substr trace_parent (start_pos s) (kHeaderElementLengths ! elt_num s) of
             Inl e \<Rightarrow> Inl e
           | Inr trace_flags_s \<Rightarrow>
               if chars (trace_id_str s) = ''00000000000000000000000000000000''
                  \<or> chars (span_id_str s) = ''0000000000000000''
               then Inr SpanContext_default
               else if chars (version s) = ''ff'' then Inr SpanContext_default
               else
                 (case GenerateTraceIdFromString (readable (trace_id_str s)) of
                    Inl e \<Rightarrow> Inl e
                  | Inr trace_id_obj \<Rightarrow>
                      (case GenerateSpanIdFromString (readable (span_id_str s)) of
                         Inl e \<Rightarrow> Inl e
                       | Inr span_id_obj \<Rightarrow>
                           (case GenerateTraceFlagsFromString (readable trace_flags_s) of
                              Inl e \<Rightarrow> Inl e
                            | Inr trace_flags_obj \<Rightarrow>
                                Inr \<lparr>trace_id = trace_id_obj, span_id = span_id_obj,
                                     trace_flags = trace_flags_obj, trace_state = [],
                                     is_remote = True\<rparr>)))))"

definition ExtractContextFromTraceParent :: "string_view \<Rightarrow> fault + SpanContext" where
  "ExtractContextFromTraceParent trace_parent =
     (let is_valid =
            (length (chars trace_parent) = kHeaderSize
             \<and> chars trace_parent ! kVersionBytes = CHR ''-''
             \<and> chars trace_parent ! (kVersionBytes + kTraceIdBytes + 1) = CHR ''-''
             \<and> chars trace_parent ! (kVersionBytes + kTraceIdBytes + kParentIdBytes + 2)
                 = CHR ''-'')
      in if \<not> is_valid then Inr SpanContext_default
         else try_catch (ExtractContextFromTraceParent_try trace_parent) SpanContext_default)"

subsection \<open>Extract: the tracestate header\<close>

text \<open>
  \<open>AddNewMember\<close>: the loop looks for the first \<open>=\<close> and calls \<open>Set\<close> with what stands
  before and after it; a member with no \<open>=\<close> leaves the trace state as it is.
\<close>

fun AddNewMember_loop :: "TraceState \<Rightarrow> string \<Rightarrow> nat \<Rightarrow> string \<Rightarrow> fault + TraceState" where
  "AddNewMember_loop ts member i [] = Inr ts"
| "AddNewMember_loop ts member i (c # rest) =
     (if c = CHR ''='' then
        (case substr member 0 (int i) of
           Inl e \<Rightarrow> Inl e
         | Inr key \<Rightarrow>
             (case substr member (int i + 1) (int (length member) - int i - 1) of
                Inl e \<Rightarrow> Inl e
              | Inr value \<Rightarrow> Inr (TraceState_Set ts key value)))
      else AddNewMember_loop ts member (i + 1) rest)"

definition AddNewMember :: "TraceState \<Rightarrow> string \<Rightarrow> fault + TraceState" where
  "AddNewMember ts member = AddNewMember_loop ts member 0 member"

text \<open>The local variables of the loop of \<open>ExtractTraceState\<close>.\<close>

record ts_vars =
  ts_trace_state :: TraceState
  ts_start_pos :: int
  ts_end_pos :: int
  element_num :: nat

definition ts_init :: ts_vars where
  "ts_init = \<lparr>ts_trace_state = [], ts_start_pos = - 1, ts_end_pos = - 1, element_num = 0\<rparr>"

text \<open>
  The statements both places share: the member is the substring from \<open>start_pos\<close> to
  \<open>end_pos\<close>, it is handed to \<open>AddNewMember\<close>, and \<open>element_num\<close> is incremented.
\<close>

definition take_member :: "string \<Rightarrow> ts_vars \<Rightarrow> fault + ts_vars" where
  "take_member trace_state_header s =
     (case substr trace_state_header (ts_start_pos s) (ts_end_pos s - ts_start_pos s + 1) of
        Inl e \<Rightarrow> Inl e
      | Inr list_member \<Rightarrow>
          (case AddNewMember (ts_trace_state s) list_member of
             Inl e \<Rightarrow> Inl e
           | Inr ts \<Rightarrow> Inr (s\<lparr>ts_trace_state := ts, element_num := element_num s + 1\<rparr>)))"

fun ts_loop :: "string \<Rightarrow> nat \<Rightarrow> string \<Rightarrow> ts_vars \<Rightarrow> fault + ts_vars" where
  "ts_loop trace_state_header i [] s = Inr s"
| "ts_loop trace_state_header i (c # rest) s =
     (if c = CHR 0x09 then ts_loop trace_state_header (i + 1) rest s
      else if c = CHR '','' then
        (if ts_start_pos s = - 1 \<and> ts_end_pos s = - 1
         then ts_loop trace_state_header (i + 1) rest s
         else
           (case take_member trace_state_header s of
              Inl e \<Rightarrow> Inl e
            | Inr s' \<Rightarrow>
                ts_loop trace_state_header (i + 1) rest
                  (s'\<lparr>ts_end_pos := - 1, ts_start_pos := - 1\<rparr>)))
      else
        ts_loop trace_state_header (i + 1) rest
          (s\<lparr>ts_end_pos := int i,
             ts_start_pos := (if ts_start_pos s = - 1 then int i else ts_start_pos s)\<rparr>))"

definition ExtractTraceState :: "string \<Rightarrow> fault + TraceState" where
  "ExtractTraceState trace_state_header =
     (case ts_loop trace_state_header 0 trace_state_header ts_init of
        Inl e \<Rightarrow> Inl e
      | Inr s \<Rightarrow>
          (case (if ts_start_pos s \<noteq> - 1 \<and> ts_end_pos s \<noteq> - 1
                 then take_member trace_state_header s else Inr s) of
             Inl e \<Rightarrow> Inl e
           | Inr s' \<Rightarrow>
               if kTraceStateMaxMembers \<le> element_num s' then Inl InvalidArgument
               else Inr (ts_trace_state s')))"

subsection \<open>Extract\<close>

text \<open>
  \<open>ExtractImpl\<close>: each result of the getter is overwritten by a view of the entry of the
  map copy \<open>c\<close> (a \<open>std::string\<close>) before it is used.
\<close>

definition ExtractImpl :: "Getter \<Rightarrow> Carrier \<Rightarrow> fault + SpanContext" where
  "ExtractImpl getter carrier =
     (let trace_parent = getter carrier kTraceParent;
          c = carrier;
          trace_parent = view_of_string (map_index c kTraceParent)
      in if chars trace_parent = [] then Inr SpanContext_default
         else
           (case ExtractContextFromTraceParent trace_parent of
              Inl e \<Rightarrow> Inl e
            | Inr context_from_parent_header \<Rightarrow>
                if \<not> IsValid context_from_parent_header then Inr context_from_parent_header
                else
                  (let trace_state_header = getter carrier kTraceState;
                       trace_state_header = map_index c kTraceState
                   in if trace_state_header = [] then Inr context_from_parent_header
                      else
                        try_catch
                          (case ExtractTraceState trace_state_header of
                             Inl e \<Rightarrow> Inl e
                           | Inr ts \<Rightarrow>
                               Inr \<lparr>trace_id = trace_id context_from_parent_header,
                                    span_id = span_id context_from_parent_header,
                                    trace_flags = trace_flags context_from_parent_header,
                                    trace_state = ts,
                                    is_remote = True\<rparr>)
                          context_from_parent_header)))"

text \<open>
  \<open>Extract\<close>: the span context \<open>ExtractImpl\<close> returns is stored under \<open>current-span\<close>, whatever
  it is (the two branches in between only print).
\<close>

definition Extract :: "Getter \<Rightarrow> Carrier \<Rightarrow> Context \<Rightarrow> fault + Context" where
  "Extract getter carrier context =
     (case ExtractImpl getter carrier of
        Inl e \<Rightarrow> Inl e
      | Inr span_context \<Rightarrow> Inr (SetValue context span_key (SpanContextPtr span_context)))"

subsection \<open>Inputs used in the properties\<close>

text \<open>
  The spec's sample \<open>traceparent\<close> header; the same header with the character \<open>g\<close> at
  position 1; the same header with the reserved version \<open>ff\<close>.
\<close>

abbreviation sample_traceparent :: string where
  "sample_traceparent \<equiv> ''00-4bf92f3577b34da6a3ce929d0e0e4736-00f067aa0ba902b7-01''"

abbreviation non_hex_traceparent :: string where
  "non_hex_traceparent \<equiv> ''0g-4bf92f3577b34da6a3ce929d0e0e4736-00f067aa0ba902b7-01''"

abbreviation reserved_traceparent :: string where
  "reserved_traceparent \<equiv> ''ff-4bf92f3577b34da6a3ce929d0e0e4736-00f067aa0ba902b7-01''"

text \<open>
  The span context \<open>ExtractContextFromTraceParent\<close> computes for the sample header (the
  properties below prove that it does).
\<close>

abbreviation sample_base :: SpanContext where
  "sample_base \<equiv>
     \<lparr>trace_id = [0xa2, 0x99, 0x86, 0x65, 0xa7, 0x53, 0xa4, 0x46,
                  0x43, 0x95, 0xc2, 0xf4, 0x65, 0x65, 0x77, 0x66],
      span_id = [0x30, 0x90, 0x97, 0x71, 0x62, 0x49, 0x32, 0x57],
      trace_flags = 0x31, trace_state = [], is_remote = True\<rparr>"

text \<open>A \<open>tracestate\<close> header of 32 members with 32 distinct one-character keys.\<close>

abbreviation members_32 :: string where
  "members_32 \<equiv>
     ''a=1,b=1,c=1,d=1,e=1,f=1,g=1,h=1,i=1,j=1,k=1,l=1,m=1,n=1,o=1,p=1,q=1,r=1,s=1,t=1,u=1,v=1,w=1,x=1,y=1,z=1,0=1,1=1,2=1,3=1,4=1,5=1''"

text \<open>
  A valid, non-remote span context with one entry, and the seven characters
  \<open>SpanContextToString\<close> makes of it.
\<close>

abbreviation sample_span_context :: SpanContext where
  "sample_span_context \<equiv>
     \<lparr>trace_id = [0, 0, 0, 0, 0, 0, 0, 0, 0, 0, 0, 0, 0, 0, 0, 1],
      span_id = [0, 0, 0, 0, 0, 0, 0, 2], trace_flags = 1,
      trace_state = [(''a'', ''1'')], is_remote = False\<rparr>"

abbreviation injected_traceparent :: string where
  "injected_traceparent \<equiv>
     [CHR ''0'', CHR ''0'', CHR ''-'', CHR 0x01, CHR ''-'', CHR 0x01, CHR 0x01]"

section \<open>Properties\<close>

subsection \<open>Auxiliary facts\<close>

lemma chars_view_of_string [simp]: "chars (view_of_string s) = s"
  by (simp add: view_of_string_def)

lemma not_IsValid_default: "\<not> IsValid SpanContext_default"
  by (simp add: IsValid_def Id_IsValid_def SpanContext_default_def list_ex_iff)

lemma is_hex_char_not_special:
  "is_hex_char c \<Longrightarrow> c \<noteq> CHR 0x09 \<and> c \<noteq> CHR ''-''"
  by (auto simp add: is_hex_char_def)

lemma tp_loop_hex_run:
  "list_all is_hex_char xs \<Longrightarrow> xs \<noteq> [] \<Longrightarrow>
   tp_loop tp i (xs @ rest) s =
   tp_loop tp (i + length xs) rest
     (s\<lparr>start_pos := (if start_pos s = - 1 then int i else start_pos s),
        countdown := countdown s - int (length xs)\<rparr>)"
proof (induction xs arbitrary: i s)
  case Nil
  then show ?case by simp
next
  case (Cons x xs)
  then have hx: "is_hex_char x" and hxs: "list_all is_hex_char xs" by simp_all
  note ns = is_hex_char_not_special [OF hx]
  show ?case
  proof (cases "xs = []")
    case True
    then show ?thesis using hx ns by simp
  next
    case False
    have "tp_loop tp i ((x # xs) @ rest) s =
          tp_loop tp (i + 1) (xs @ rest)
            (s\<lparr>start_pos := (if start_pos s = - 1 then int i else start_pos s),
               countdown := countdown s - 1\<rparr>)"
      using hx ns by simp
    also have "\<dots> = tp_loop tp (i + 1 + length xs) rest
            (s\<lparr>start_pos := (if start_pos s = - 1 then int i else start_pos s),
               countdown := countdown s - 1 - int (length xs)\<rparr>)"
      by (subst Cons.IH [OF hxs False]) simp
    finally show ?thesis by (simp add: algebra_simps)
  qed
qed

lemma tp_loop_wellformed:
  assumes "length v = 2" "length t = 32" "length sp = 16" "length f = 2"
    and "list_all is_hex_char v" "list_all is_hex_char t"
        "list_all is_hex_char sp" "list_all is_hex_char f"
    and tp: "chars tp = v @ CHR ''-'' # t @ CHR ''-'' # sp @ CHR ''-'' # f"
  shows "tp_loop tp 0 (chars tp) tp_init =
         Inr \<lparr>version = \<lparr>chars = v, readable = readable tp\<rparr>,
              trace_id_str = \<lparr>chars = t, readable = drop 3 (readable tp)\<rparr>,
              span_id_str = \<lparr>chars = sp, readable = drop 36 (readable tp)\<rparr>,
              elt_num = 3, countdown = 0, start_pos = 53\<rparr>"
proof -
  have ne: "v \<noteq> []" "t \<noteq> []" "sp \<noteq> []" "f \<noteq> []" using assms by auto
  have s0: "view_substr tp 0 2 = Inr \<lparr>chars = v, readable = readable tp\<rparr>"
    using assms by (simp add: view_substr_def substr_def)
  have s1: "view_substr tp 3 32 = Inr \<lparr>chars = t, readable = drop 3 (readable tp)\<rparr>"
    using assms by (simp add: view_substr_def substr_def)
  have s2: "view_substr tp 36 16 = Inr \<lparr>chars = sp, readable = drop 36 (readable tp)\<rparr>"
    using assms by (simp add: view_substr_def substr_def)
  have "tp_loop tp 0 (chars tp) tp_init =
        tp_loop tp 0 (v @ CHR ''-'' # t @ CHR ''-'' # sp @ CHR ''-'' # f) tp_init"
    using tp by simp
  also have "\<dots> = tp_loop tp 3 (t @ CHR ''-'' # sp @ CHR ''-'' # f)
      \<lparr>version = \<lparr>chars = v, readable = readable tp\<rparr>, trace_id_str = empty_view,
       span_id_str = empty_view, elt_num = 1, countdown = 32, start_pos = - 1\<rparr>"
    using assms(1) s0
    by (subst tp_loop_hex_run [OF assms(5) ne(1)])
       (simp add: tp_init_def next_element_def kHeaderElementLengths_def eval_nat_numeral)
  also have "\<dots> = tp_loop tp 36 (sp @ CHR ''-'' # f)
      \<lparr>version = \<lparr>chars = v, readable = readable tp\<rparr>,
       trace_id_str = \<lparr>chars = t, readable = drop 3 (readable tp)\<rparr>,
       span_id_str = empty_view, elt_num = 2, countdown = 16, start_pos = - 1\<rparr>"
    using assms(2) s1
    by (subst tp_loop_hex_run [OF assms(6) ne(2)])
       (simp add: next_element_def kHeaderElementLengths_def eval_nat_numeral)
  also have "\<dots> = tp_loop tp 53 (f @ [])
      \<lparr>version = \<lparr>chars = v, readable = readable tp\<rparr>,
       trace_id_str = \<lparr>chars = t, readable = drop 3 (readable tp)\<rparr>,
       span_id_str = \<lparr>chars = sp, readable = drop 36 (readable tp)\<rparr>,
       elt_num = 3, countdown = 2, start_pos = - 1\<rparr>"
    using assms(3) s2
    by (subst tp_loop_hex_run [OF assms(7) ne(3)])
       (simp add: next_element_def kHeaderElementLengths_def eval_nat_numeral)
  also have "\<dots> = tp_loop tp 55 []
      \<lparr>version = \<lparr>chars = v, readable = readable tp\<rparr>,
       trace_id_str = \<lparr>chars = t, readable = drop 3 (readable tp)\<rparr>,
       span_id_str = \<lparr>chars = sp, readable = drop 36 (readable tp)\<rparr>,
       elt_num = 3, countdown = 0, start_pos = 53\<rparr>"
    using assms(4) by (subst tp_loop_hex_run [OF assms(8) ne(4)]) (simp add: eval_nat_numeral)
  finally show ?thesis by simp
qed

lemma ExtractContextFromTraceParent_reserved:
  assumes "length v = 2" "length t = 32" "length sp = 16" "length f = 2"
    and "list_all is_hex_char v" "list_all is_hex_char t"
        "list_all is_hex_char sp" "list_all is_hex_char f"
    and tp: "chars tp = v @ CHR ''-'' # t @ CHR ''-'' # sp @ CHR ''-'' # f"
    and r: "v = ''ff'' \<or> t = ''00000000000000000000000000000000'' \<or> sp = ''0000000000000000''"
  shows "ExtractContextFromTraceParent tp = Inr SpanContext_default"
proof -
  have loop: "tp_loop tp 0 (chars tp) tp_init =
         Inr \<lparr>version = \<lparr>chars = v, readable = readable tp\<rparr>,
              trace_id_str = \<lparr>chars = t, readable = drop 3 (readable tp)\<rparr>,
              span_id_str = \<lparr>chars = sp, readable = drop 36 (readable tp)\<rparr>,
              elt_num = 3, countdown = 0, start_pos = 53\<rparr>"
    using assms(1-9) by (rule tp_loop_wellformed)
  have fl: "view_substr tp 53 (kHeaderElementLengths ! 3) =
              Inr \<lparr>chars = f, readable = drop 53 (readable tp)\<rparr>"
    using assms(1-4) tp by (simp add: view_substr_def substr_def kHeaderElementLengths_def)
  have tr: "ExtractContextFromTraceParent_try tp = Inr SpanContext_default"
    using r by (auto simp add: ExtractContextFromTraceParent_try_def loop fl)
  show ?thesis
    by (simp add: ExtractContextFromTraceParent_def tr try_catch_def)
qed

lemma traceparent_fields:
  assumes len: "length tp = 55"
    and d: "tp ! 2 = CHR ''-''" "tp ! 35 = CHR ''-''" "tp ! 52 = CHR ''-''"
  shows "tp = take 2 tp @ CHR ''-'' # take 32 (drop 3 tp) @ CHR ''-'' #
              take 16 (drop 36 tp) @ CHR ''-'' # drop 53 tp"
proof -
  have a: "tp = take 2 tp @ tp ! 2 # drop 3 tp"
    using id_take_nth_drop [of 2 tp] len by simp
  have b: "drop 3 tp = take 32 (drop 3 tp) @ tp ! 35 # drop 36 tp"
    using id_take_nth_drop [of 32 "drop 3 tp"] len by simp
  have c: "drop 36 tp = take 16 (drop 36 tp) @ tp ! 52 # drop 53 tp"
    using id_take_nth_drop [of 16 "drop 36 tp"] len by simp
  show ?thesis using a b c d by metis
qed


lemma remove_first_subset: "set (remove_first key es) \<subseteq> set es"
  by (induction es) auto

lemma remove_first_distinct:
  "distinct (map fst es) \<Longrightarrow>
   distinct (map fst (remove_first key es)) \<and> key \<notin> fst ` set (remove_first key es)"
proof (induction es)
  case Nil
  then show ?case by simp
next
  case (Cons e es)
  have sub: "fst ` set (remove_first key es) \<subseteq> fst ` set es"
    using remove_first_subset [of key es] by blast
  show ?case
  proof (cases "getKey e = key")
    case True
    then show ?thesis using Cons.prems by (auto simp add: getKey_def)
  next
    case False
    then show ?thesis using Cons sub by (auto simp add: getKey_def)
  qed
qed

lemma TraceState_Set_eq: "TraceState_Set ts key value = (key, value) # remove_first key ts"
  by (simp add: TraceState_Set_def Builder_set_def build_def staged_def Entry_create_def
      getKey_def)

lemma TraceState_Set_distinct:
  "distinct (map fst ts) \<Longrightarrow> distinct (map fst (TraceState_Set ts key value))"
  using remove_first_distinct [of ts key] by (simp add: TraceState_Set_eq)

lemma AddNewMember_loop_distinct:
  "AddNewMember_loop ts member i rest = Inr ts' \<Longrightarrow> distinct (map fst ts) \<Longrightarrow>
   distinct (map fst ts')"
  by (induction rest arbitrary: i)
     (auto simp add: TraceState_Set_distinct split: if_splits sum.splits)


lemma take_member_distinct:
  "take_member h s = Inr s' \<Longrightarrow> distinct (map fst (ts_trace_state s)) \<Longrightarrow>
   distinct (map fst (ts_trace_state s'))"
  by (auto simp add: take_member_def AddNewMember_def dest: AddNewMember_loop_distinct
      split: sum.splits)


lemma ts_loop_distinct:
  "ts_loop h i rest s = Inr s' \<Longrightarrow> distinct (map fst (ts_trace_state s)) \<Longrightarrow>
   distinct (map fst (ts_trace_state s'))"
proof (induction rest arbitrary: i s)
  case Nil
  then show ?case by simp
next
  case (Cons c rest)
  show ?case
  proof (cases "c = CHR 0x09")
    case True
    then show ?thesis using Cons by simp
  next
    case nt: False
    show ?thesis
    proof (cases "c = CHR '',''")
      case False
      then show ?thesis using Cons.prems nt
        by (auto dest!: Cons.IH)
    next
      case True
      show ?thesis
      proof (cases "ts_start_pos s = - 1 \<and> ts_end_pos s = - 1")
        case True
        then show ?thesis using Cons \<open>c = CHR '',''\<close> by simp
      next
        case False
        then obtain s1 where tm: "take_member h s = Inr s1"
          and rec: "ts_loop h (i + 1) rest (s1\<lparr>ts_end_pos := - 1, ts_start_pos := - 1\<rparr>) = Inr s'"
          using Cons.prems(1) \<open>c = CHR '',''\<close> by (auto split: sum.splits)
        have "distinct (map fst (ts_trace_state s1))"
          using take_member_distinct [OF tm Cons.prems(2)] .
        then show ?thesis using Cons.IH [OF rec] by simp
      qed
    qed
  qed
qed


lemma ExtractTraceState_distinct:
  "ExtractTraceState h = Inr ts \<Longrightarrow> distinct (map fst ts)"
proof -
  assume a: "ExtractTraceState h = Inr ts"
  then obtain s where l: "ts_loop h 0 h ts_init = Inr s"
    by (auto simp add: ExtractTraceState_def split: sum.splits)
  have d: "distinct (map fst (ts_trace_state s))"
    using ts_loop_distinct [OF l] by (simp add: ts_init_def)
  show ?thesis
    using a l d
    by (auto simp add: ExtractTraceState_def dest: take_member_distinct
        split: sum.splits if_splits)
qed




text \<open>What \<open>set\<close> stages, for every key and value: no test of either stands in its way.\<close>

lemma Builder_set_staged:
  "staged (Builder_set b key value) = (key, value) # remove_first key (staged b)"
  by (simp add: Builder_set_def staged_def Entry_create_def getKey_def)

text \<open>\<open>Inject\<close> never touches the \<open>tracestate\<close> entry of a header map.\<close>

lemma Inject_keeps_tracestate:
  "Inject map_setter carrier context = Inr carrier' \<Longrightarrow>
   carrier' kTraceState = carrier kTraceState"
  by (auto simp add: Inject_def InjectImpl_def map_setter_def kTraceState_def kTraceParent_def
      split: sum.splits if_splits)

text \<open>Nothing under \<open>current-span\<close>: \<open>Inject\<close> ends in the fault.\<close>

lemma Inject_absent_faults:
  "GetValue context span_key = None \<Longrightarrow> Inject setter carrier context = Inl BadVariantAccess"
  by (simp add: Inject_def GetCurrentSpanContext_def)

text \<open>A span context that is not valid: \<open>Inject\<close> returns the carrier, whatever the setter.\<close>

lemma Inject_invalid_noop:
  "GetValue context span_key = Some (SpanContextPtr span_context) \<Longrightarrow>
   \<not> IsValid span_context \<Longrightarrow> Inject setter carrier context = Inr carrier"
  by (simp add: Inject_def GetCurrentSpanContext_def)

text \<open>
  Whatever the \<open>traceparent\<close> header, the span context built from it has no entries; so a
  carrier without a \<open>tracestate\<close> header never yields an entry.
\<close>

lemma ExtractContextFromTraceParent_no_entries:
  "ExtractContextFromTraceParent tp = Inr base \<Longrightarrow> trace_state base = []"
  by (auto simp add: ExtractContextFromTraceParent_def ExtractContextFromTraceParent_try_def
      try_catch_def SpanContext_default_def Let_def split: if_splits sum.splits)

lemma ExtractImpl_no_tracestate:
  "map_index carrier kTraceState = [] \<Longrightarrow> ExtractImpl getter carrier = Inr sc \<Longrightarrow>
   trace_state sc = []"
  by (auto simp add: ExtractImpl_def SpanContext_default_def Let_def
      dest: ExtractContextFromTraceParent_no_entries split: if_splits sum.splits)

text \<open>
  Hence no round trip through the empty header map brings an entry back, whatever span
  context the input context holds.
\<close>

lemma Inject_then_ExtractImpl_no_entries:
  assumes "Inject map_setter Map.empty context = Inr carrier'"
    and "ExtractImpl map_getter carrier' = Inr sc"
  shows "trace_state sc = []"
proof -
  have "carrier' kTraceState = None"
    using Inject_keeps_tracestate [OF assms(1)] by simp
  then have "map_index carrier' kTraceState = []"
    by (simp add: map_index_def)
  then show ?thesis using assms(2) by (rule ExtractImpl_no_tracestate)
qed

text \<open>
  A header of another length, or without a \<open>-\<close> at one of the three positions, gives the
  default span context.
\<close>

lemma ExtractContextFromTraceParent_malformed:
  "length tp \<noteq> 55 \<or> tp ! 2 \<noteq> CHR ''-'' \<or> tp ! 35 \<noteq> CHR ''-'' \<or> tp ! 52 \<noteq> CHR ''-'' \<Longrightarrow>
   ExtractContextFromTraceParent (view_of_string tp) = Inr SpanContext_default"
  by (auto simp add: ExtractContextFromTraceParent_def kHeaderSize_def kVersionBytes_def
      kTraceIdBytes_def kParentIdBytes_def kTraceFlagBytes_def kTraceDelimiterBytes_def
      view_of_string_def)

text \<open>
  A header whose last two characters are a TAB and a digit passes the scan: the flags view
  has one character, and the second read of \<open>GenerateTraceFlagsFromString\<close> meets the
  terminating NUL of the string behind the view.
\<close>

lemma ExtractContextFromTraceParent_tab_digit: "ExtractContextFromTraceParent
     (view_of_string (''00-4bf92f3577b34da6a3ce929d0e0e4736-00f067aa0ba902b7-'' @ [CHR 0x09, CHR ''1''])) =
     Inr (sample_base\<lparr>trace_flags := 0x10\<rparr>)"
  by code_simp




















text \<open>
  The first 31 members of the 32-member header parse, the entries in reverse order of the
  members (each \<open>Set\<close> inserts in front).
\<close>

lemma ExtractTraceState_31_members_accepted:
  "ExtractTraceState (take 123 members_32) =
     Inr (rev (map (\<lambda>c. ([c], ''1'')) ''abcdefghijklmnopqrstuvwxyz01234''))"
  by code_simp

subsection \<open>The claims\<close>

text \<open>
  C1 (the code on a round trip). The span context with trace id \<open>00..01\<close>, span id
  \<open>00..02\<close>, flags \<open>01\<close> and the one entry \<open>a=1\<close> is valid. \<open>Inject\<close> into the empty header
  map writes the single header \<open>traceparent\<close>, whose value is \<open>00-\<close>, one character of code
  1, \<open>-\<close> and two characters of code 1: seven characters, no hexadecimal digits of the ids,
  no flags, and no \<open>tracestate\<close> header. \<open>ExtractImpl\<close> on that carrier returns the default
  span context: ids of zeros, no entries, not remote.
\<close>

theorem Inject_then_Extract_loses_span_context:
  "(let sc = sample_span_context
    in IsValid sc \<and>
       Inject map_setter Map.empty (SetValue Map.empty span_key (SpanContextPtr sc)) =
         Inr (map_setter Map.empty kTraceParent injected_traceparent)) \<and>
   ExtractImpl map_getter (map_setter Map.empty kTraceParent injected_traceparent) =
     Inr SpanContext_default \<and>
   map_setter Map.empty kTraceParent injected_traceparent kTraceState = None"
proof -
  have v: "IsValid sample_span_context"
    by code_simp
  have w: "SpanContextToString sample_span_context = Inr injected_traceparent"
    by code_simp
  have x: "ExtractImpl map_getter (map_setter Map.empty kTraceParent injected_traceparent) =
             Inr SpanContext_default"
    by code_simp
  show ?thesis
    using v x
    by (simp add: Inject_def GetCurrentSpanContext_def GetValue_def SetValue_def InjectImpl_def w
        map_setter_def kTraceParent_def kTraceState_def)
qed

text \<open>
  C2 (the code at the flags fields \<open>01\<close> and \<open>0a\<close>). \<open>GenerateTraceFlagsFromString\<close>
  multiplies the character code of the first digit by 16 and adds the character code of
  the second. For \<open>01\<close> that is 48 * 16 + 49, cut to a byte \<open>0x31\<close>, not \<open>0x01\<close>. For \<open>0a\<close>
  it is \<open>0x61\<close>, whose bit 0 is set, so \<open>IsSampled\<close> holds of flags whose value \<open>0x0a\<close> has
  bit 0 clear. Likewise the trace id field \<open>4bf92f3577b34da6a3ce929d0e0e4736\<close> does not
  decode to the bytes \<open>4b f9 2f ...\<close>: the first byte is \<open>0xa2\<close>.
\<close>

theorem GenerateTraceFlagsFromString_01:
  "GenerateTraceFlagsFromString ''01'' = Inr 0x31 \<and>
   GenerateTraceFlagsFromString ''01'' \<noteq> Inr 0x01 \<and>
   GenerateTraceFlagsFromString ''0a'' = Inr 0x61 \<and>
   IsSampled 0x61 \<and> \<not> IsSampled 0x0a \<and>
   GenerateTraceIdFromString ''4bf92f3577b34da6a3ce929d0e0e4736'' =
     Inr [0xa2, 0x99, 0x86, 0x65, 0xa7, 0x53, 0xa4, 0x46,
          0x43, 0x95, 0xc2, 0xf4, 0x65, 0x65, 0x77, 0x66]"
proof -
  have a: "GenerateTraceFlagsFromString ''01'' = Inr 0x31"
    by code_simp
  have b: "GenerateTraceFlagsFromString ''0a'' = Inr 0x61"
    by code_simp
  have c: "IsSampled 0x61" "\<not> IsSampled 0x0a"
    by (simp_all add: IsSampled_def)
  have d: "GenerateTraceIdFromString ''4bf92f3577b34da6a3ce929d0e0e4736'' =
     Inr [0xa2, 0x99, 0x86, 0x65, 0xa7, 0x53, 0xa4, 0x46,
          0x43, 0x95, 0xc2, 0xf4, 0x65, 0x65, 0x77, 0x66]"
    by code_simp
  show ?thesis by (simp add: a b c d)
qed

text \<open>
  C3 (the code at a header with a character that is no digit). The header has length 55
  and \<open>-\<close> at positions 2, 35 and 52, and the character \<open>g\<close> at position 1. The scan loop
  reaches its last \<open>else\<close> and executes a bare \<open>throw;\<close> although no exception is being
  handled: the program terminates, so \<open>Extract\<close> returns no context, for any getter and any
  input context.
\<close>

theorem Extract_non_hex_terminates:
  "Extract getter [kTraceParent \<mapsto> non_hex_traceparent] context = Inl Terminate"
proof -
  have "ExtractContextFromTraceParent (view_of_string non_hex_traceparent) = Inl Terminate"
    by code_simp
  then show ?thesis
    by (simp add: Extract_def ExtractImpl_def map_index_def view_of_string_def)
qed




text \<open>
  C5, as stated, fails: with no \<open>traceparent\<close> in the carrier and nothing in the input
  context, the context \<open>Extract\<close> returns holds the default span context under
  \<open>current-span\<close>, so \<open>GetValue\<close> for that key differs between the two contexts.
\<close>

theorem Extract_absent_counterexample:
  "Extract map_getter Map.empty Map.empty =
     Inr [span_key \<mapsto> SpanContextPtr SpanContext_default] \<and>
   GetValue [span_key \<mapsto> SpanContextPtr SpanContext_default] span_key \<noteq>
     GetValue Map.empty span_key"
  by (simp add: Extract_def ExtractImpl_def map_index_def SetValue_def GetValue_def Let_def)

text \<open>
  C5, amended. When the carrier holds no \<open>traceparent\<close> or an empty one, \<open>Extract\<close> returns
  the input context with the default (invalid) span context stored under \<open>current-span\<close>;
  \<open>GetValue\<close> for every other key observes what the input context held.
\<close>

theorem Extract_absent_traceparent:
  assumes "carrier kTraceParent = None \<or> carrier kTraceParent = Some []"
  shows "Extract getter carrier context =
           Inr (SetValue context span_key (SpanContextPtr SpanContext_default)) \<and>
         (\<forall>key. key \<noteq> span_key \<longrightarrow>
            GetValue (SetValue context span_key (SpanContextPtr SpanContext_default)) key =
            GetValue context key)"
  using assms
  by (auto simp add: Extract_def ExtractImpl_def map_index_def SetValue_def GetValue_def Let_def)

theorem Extract_absent_traceparent_witness:
  "Extract map_getter [kTraceState \<mapsto> ''a=1''] [''user'' \<mapsto> OtherValue ''x''] =
     Inr (SetValue [''user'' \<mapsto> OtherValue ''x''] span_key (SpanContextPtr SpanContext_default)) \<and>
   GetValue (SetValue [''user'' \<mapsto> OtherValue ''x''] span_key
       (SpanContextPtr SpanContext_default)) ''user'' = Some (OtherValue ''x'')"
proof -
  have a: "[kTraceState \<mapsto> ''a=1''] kTraceParent = None \<or>
           [kTraceState \<mapsto> ''a=1''] kTraceParent = Some []"
    by (simp add: kTraceState_def kTraceParent_def)
  have n: "''user'' \<noteq> span_key"
    by (simp add: span_key_def)
  show ?thesis
    using a n
      Extract_absent_traceparent
        [of "[kTraceState \<mapsto> ''a=1'']" map_getter "[''user'' \<mapsto> OtherValue ''x'']"]
    by (simp add: GetValue_def)
qed

text \<open>
  C6 (the code at a context without a span context). With nothing stored under
  \<open>current-span\<close>, \<open>GetCurrentSpanContext\<close> takes the shared pointer out of a value that holds
  none, and \<open>Inject\<close> does not return the carrier: the call ends in the fault, for any
  setter and any carrier.
\<close>

theorem Inject_without_span_context_faults:
  "Inject setter carrier Map.empty = Inl BadVariantAccess"
  by (simp add: Inject_def GetCurrentSpanContext_def GetValue_def)

text \<open>
  C7. Let the \<open>traceparent\<close> value pass the positional check: length 55, \<open>-\<close> at positions
  2, 35 and 52, and digits \<open>0-9a-f\<close> at all other positions. If its version field is \<open>ff\<close>,
  or its trace id field is all zeros, or its span id field is all zeros, then
  \<open>ExtractImpl\<close> returns the default span context and \<open>Extract\<close> returns exactly what it
  returns for the same carrier without the \<open>traceparent\<close> header.
\<close>

theorem Extract_reserved_traceparent_as_absent:
  assumes len: "length tp = 55"
    and d: "tp ! 2 = CHR ''-''" "tp ! 35 = CHR ''-''" "tp ! 52 = CHR ''-''"
    and h: "list_all is_hex_char (take 2 tp)" "list_all is_hex_char (take 32 (drop 3 tp))"
        "list_all is_hex_char (take 16 (drop 36 tp))" "list_all is_hex_char (drop 53 tp)"
    and r: "take 2 tp = ''ff''
            \<or> take 32 (drop 3 tp) = ''00000000000000000000000000000000''
            \<or> take 16 (drop 36 tp) = ''0000000000000000''"
    and c: "carrier kTraceParent = Some tp"
  shows "ExtractImpl getter carrier = Inr SpanContext_default \<and>
         Extract getter carrier context = Extract getter (carrier(kTraceParent := None)) context"
proof -
  have tp: "ExtractContextFromTraceParent (view_of_string tp) = Inr SpanContext_default"
    using len h traceparent_fields [OF len d] r
    by (intro ExtractContextFromTraceParent_reserved
          [of "take 2 tp" "take 32 (drop 3 tp)" "take 16 (drop 36 tp)" "drop 53 tp"])
       (simp_all add: view_of_string_def)
  have ne: "tp \<noteq> []" using len by auto
  have 1: "ExtractImpl getter carrier = Inr SpanContext_default"
    using c ne by (simp add: ExtractImpl_def map_index_def tp not_IsValid_default view_of_string_def [of tp, symmetric])
  have 2: "ExtractImpl getter (carrier(kTraceParent := None)) = Inr SpanContext_default"
    by (simp add: ExtractImpl_def map_index_def)
  show ?thesis by (simp add: Extract_def 1 2)
qed



theorem Extract_reserved_traceparent_as_absent_witness:
  "ExtractImpl map_getter [kTraceParent \<mapsto> reserved_traceparent] = Inr SpanContext_default \<and>
   Extract map_getter [kTraceParent \<mapsto> reserved_traceparent] Map.empty =
     Extract map_getter ([kTraceParent \<mapsto> reserved_traceparent](kTraceParent := None)) Map.empty"
  using Extract_reserved_traceparent_as_absent
          [of "reserved_traceparent"
              "[kTraceParent \<mapsto> reserved_traceparent]"
              map_getter Map.empty]
  by (simp add: is_hex_char_def)

text \<open>
  C8 (the code at 32 members). The header has 32 well-formed members with 32 distinct
  keys. \<open>ExtractTraceState\<close> counts 32 elements, the test \<open>element_num >= 32\<close> holds, and the
  parse throws; \<open>ExtractImpl\<close> then returns the span context of the \<open>traceparent\<close> header with
  no entry at all.
\<close>

theorem ExtractTraceState_32_members_rejected:
  "ExtractTraceState members_32 = Inl InvalidArgument \<and>
   ExtractImpl map_getter [kTraceParent \<mapsto> sample_traceparent, kTraceState \<mapsto> members_32] =
     Inr sample_base"
proof -
  have a: "ExtractTraceState members_32 = Inl InvalidArgument"
    by code_simp
  have b: "ExtractImpl map_getter [kTraceParent \<mapsto> sample_traceparent, kTraceState \<mapsto> members_32] =
     Inr sample_base"
    by code_simp
  show ?thesis using a b by simp
qed

text \<open>
  C10 (the code at the empty value). \<open>validateValue\<close> does not classify the empty value: its
  first test reads index \<open>length - 1\<close>, which for length 0 is \<open>2^64 - 1\<close>, outside the view.
\<close>

theorem validateValue_empty_reads_outside:
  "validateValue [] = Inl UndefinedRead"
  by (simp add: validateValue_def at_def VALUE_MAX_SIZE_def)

text \<open>
  C9 (the code at a key that fails validation). The key \<open>'' bad''\<close> is rejected by
  \<open>validateKey\<close>, and \<open>set\<close> on the empty builder stages it all the same: \<open>set\<close> never
  calls the validation functions.
\<close>

theorem Builder_set_accepts_invalid_key:
  "validateKey '' bad'' = False \<and>
   staged builder = [] \<and>
   staged (Builder_set builder '' bad'' ''x'') = [('' bad'', ''x'')]"
  by (simp add: validateKey_def isNumberOrDigit_def Builder_set_def builder_def staged_def
      Entry_create_def getKey_def EMPTY_def KEY_MAX_SIZE_def)

end
